theory Spec2Isabelle
  imports Main
begin

section \<open>Data model (models.py)\<close>

text \<open>
  Dates are proleptic Gregorian ordinals (Python's \<^verbatim>\<open>date.toordinal()\<close>), times of
  day are minutes since midnight (every time in the system is parsed with the format
  \<^verbatim>\<open>%H:%M\<close>, so seconds are always zero), and a \<^verbatim>\<open>datetime\<close> is the number of
  minutes since midnight of ordinal 0. Python's \<^verbatim>\<open>date\<close> ends with the year 9999:
  \<open>book_appointment\<close>, which adds a duration read from the services table, has the
  \<^verbatim>\<open>OverflowError\<close> of that sum as a result; in the availability functions, which only
  add 30 minutes and up to 29 days to a date of the calendar, the limit is outside the
  model.
\<close>

type_synonym date = int
type_synonym time = nat
type_synonym datetime = int

record employee =
  emp_id :: int
  emp_shop_id :: int
  emp_name :: string
  is_active :: bool
  working_days :: string
  emp_start_time :: time
  emp_end_time :: time

record customer =
  cust_id :: int
  cust_name :: string
  cust_phone :: string

record service =
  svc_id :: int
  svc_shop_id :: int
  svc_name :: string
  duration_minutes :: int

record appointment =
  appt_id :: int
  shop_id :: int
  employee_id :: int
  customer_id :: int
  service_id :: "int option"
  appointment_date :: date
  start_time :: time
  end_time :: time
  appt_notes :: string
  status :: string

text \<open>The SQLAlchemy session: one list per table, in insertion order.\<close>

record session =
  employees :: "employee list"
  customers :: "customer list"
  services :: "service list"
  appointments :: "appointment list"

text \<open>
  The \<^verbatim>\<open>ValueError\<close>s of booking_manager.py, named as the specification names them:
  \<^verbatim>\<open>ValueError("Employee not found")\<close>, \<^verbatim>\<open>ValueError("Time slot not available")\<close>
  and the \<^verbatim>\<open>ValueError\<close> that \<^verbatim>\<open>datetime.strptime\<close> raises; and the
  \<^verbatim>\<open>OverflowError\<close> of \<^verbatim>\<open>timedelta\<close> and of \<^verbatim>\<open>datetime\<close> addition.
\<close>

datatype error = StaffNotFound | SlotUnavailable | InvalidTimeFormat | OverflowError

record slot =
  slot_start_time :: time
  slot_end_time :: time
  available :: bool

section \<open>Library functions of Python used by the code\<close>

definition combine :: "date \<Rightarrow> time \<Rightarrow> datetime" where
  "combine d t = d * 1440 + int t"

definition time_of :: "datetime \<Rightarrow> time" where
  "time_of x = nat (x mod 1440)"

text \<open>
  \<^verbatim>\<open>timedelta(minutes=m)\<close>: the normalised number of days must lie within
  \<open>\<plusminus>999999999\<close>.
\<close>

definition timedelta_minutes :: "int \<Rightarrow> error + int" where
  "timedelta_minutes m =
     (if - 999999999 \<le> m div 1440 \<and> m div 1440 \<le> 999999999 then Inr m
      else Inl OverflowError)"

text \<open>
  \<^verbatim>\<open>datetime + timedelta\<close>: the sum must lie between 0001-01-01 00:00 (ordinal 1) and
  the end of 9999-12-31 (ordinal 3652059).
\<close>

definition datetime_add :: "datetime \<Rightarrow> int \<Rightarrow> error + datetime" where
  "datetime_add x delta =
     (if 1 * 1440 \<le> x + delta \<and> x + delta < (3652059 + 1) * 1440 then Inr (x + delta)
      else Inl OverflowError)"

text \<open>\<^verbatim>\<open>date.strftime("%a")\<close> in the C locale; ordinal 1 is a Monday.\<close>

definition strftime_a :: "date \<Rightarrow> string" where
  "strftime_a d =
     [''Mon'', ''Tue'', ''Wed'', ''Thu'', ''Fri'', ''Sat'', ''Sun''] ! nat ((d + 6) mod 7)"

text \<open>\<^verbatim>\<open>str.split(",")\<close>: every comma separates, empty fields are kept.\<close>

fun split_comma :: "string \<Rightarrow> string list" where
  "split_comma [] = [[]]"
| "split_comma (c # cs) =
     (if c = CHR '','' then [] # split_comma cs
      else (case split_comma cs of
              [] \<Rightarrow> [[c]]
            | w # ws \<Rightarrow> (c # w) # ws))"

text \<open>
  \<^verbatim>\<open>datetime.strptime(s, "%H:%M").time()\<close>. The format compiles to the regular
  expression \<^verbatim>\<open>(2[0-3]|[0-1]\d|\d):([0-5]\d|\d)\<close>, matched at the start of the string by
  a backtracking matcher that tries the alternatives in this order; text left after the
  match is an error. Characters are ASCII.
\<close>

definition digit :: "char \<Rightarrow> nat option" where
  "digit c =
     (let n = (of_char c :: nat) in if 48 \<le> n \<and> n \<le> 57 then Some (n - 48) else None)"

definition alts_H :: "string \<Rightarrow> (nat \<times> string) list" where
  "alts_H s =
     (case s of
        c1 # c2 # r \<Rightarrow>
          (case (digit c1, digit c2) of
             (Some d1, Some d2) \<Rightarrow>
               (if d1 = 2 \<and> d2 \<le> 3 then [(20 + d2, r)] else []) @
               (if d1 \<le> 1 then [(10 * d1 + d2, r)] else [])
           | _ \<Rightarrow> [])
      | _ \<Rightarrow> []) @
     (case s of
        c1 # r \<Rightarrow> (case digit c1 of Some d1 \<Rightarrow> [(d1, r)] | None \<Rightarrow> [])
      | [] \<Rightarrow> [])"

definition alts_M :: "string \<Rightarrow> (nat \<times> string) list" where
  "alts_M s =
     (case s of
        c1 # c2 # r \<Rightarrow>
          (case (digit c1, digit c2) of
             (Some d1, Some d2) \<Rightarrow> (if d1 \<le> 5 then [(10 * d1 + d2, r)] else [])
           | _ \<Rightarrow> [])
      | _ \<Rightarrow> []) @
     (case s of
        c1 # r \<Rightarrow> (case digit c1 of Some d1 \<Rightarrow> [(d1, r)] | None \<Rightarrow> [])
      | [] \<Rightarrow> [])"

fun match_HM :: "(nat \<times> string) list \<Rightarrow> (nat \<times> nat \<times> string) option" where
  "match_HM [] = None"
| "match_HM ((h, r) # alts) =
     (case r of
        c # r' \<Rightarrow>
          (if c = CHR '':'' then
             (case alts_M r' of
                (m, rest) # _ \<Rightarrow> Some (h, m, rest)
              | [] \<Rightarrow> match_HM alts)
           else match_HM alts)
      | [] \<Rightarrow> match_HM alts)"

definition strptime_HM :: "string \<Rightarrow> time option" where
  "strptime_HM s =
     (case match_HM (alts_H s) of
        None \<Rightarrow> None
      | Some (h, m, rest) \<Rightarrow> if rest = [] then Some (h * 60 + m) else None)"

section \<open>Queries of the session\<close>

text \<open>\<^verbatim>\<open>session.query(T).get(id)\<close>: the row with that primary key.\<close>

definition get_employee :: "session \<Rightarrow> int \<Rightarrow> employee option" where
  "get_employee db i = find (\<lambda>e. emp_id e = i) (employees db)"

definition get_service :: "session \<Rightarrow> int \<Rightarrow> service option" where
  "get_service db i = find (\<lambda>s. svc_id s = i) (services db)"

text \<open>
  The primary key SQLite gives a new row of an \<^verbatim>\<open>INTEGER PRIMARY KEY\<close> table: one more
  than the largest key in the table, 1 for an empty table.
\<close>

definition next_id :: "int list \<Rightarrow> int" where
  "next_id ids = (case ids of [] \<Rightarrow> 1 | i # rest \<Rightarrow> fold max rest i + 1)"

section \<open>booking_manager.py\<close>

subsection \<open>register_customer\<close>

definition register_customer :: "session \<Rightarrow> string \<Rightarrow> string \<Rightarrow> customer \<times> session" where
  "register_customer db name phone =
     (case find (\<lambda>c. cust_phone c = phone) (customers db) of
        Some customer \<Rightarrow> (customer, db)
      | None \<Rightarrow>
          (let customer = \<lparr>cust_id = next_id (map cust_id (customers db)),
                            cust_name = name, cust_phone = phone\<rparr>
           in (customer, db\<lparr>customers := customers db @ [customer]\<rparr>)))"

subsection \<open>get_employee_availability\<close>

text \<open>The inner loop over the appointments: the slot is free unless one overlaps it.\<close>

fun is_available :: "date \<Rightarrow> datetime \<Rightarrow> datetime \<Rightarrow> appointment list \<Rightarrow> bool" where
  "is_available d current_time slot_end [] = True"
| "is_available d current_time slot_end (a # as) =
     (let appt_start = combine d (start_time a);
          appt_end = combine d (end_time a)
      in if \<not> (slot_end \<le> appt_start \<or> current_time \<ge> appt_end) then False
         else is_available d current_time slot_end as)"

text \<open>The \<^verbatim>\<open>while\<close> loop; \<open>time_slots\<close> is the list built so far.\<close>

function slots_loop ::
  "appointment list \<Rightarrow> date \<Rightarrow> datetime \<Rightarrow> datetime \<Rightarrow> slot list \<Rightarrow> slot list" where
  "slots_loop appts d current_time end_datetime time_slots =
     (if current_time + 30 \<le> end_datetime then
        (let slot_end = current_time + 30;
             time_slots' =
               (if is_available d current_time slot_end appts
                then time_slots @ [\<lparr>slot_start_time = time_of current_time,
                                     slot_end_time = time_of slot_end,
                                     available = True\<rparr>]
                else time_slots)
         in slots_loop appts d slot_end end_datetime time_slots')
      else time_slots)"
  by pat_completeness auto
termination
  by (relation "measure (\<lambda>(appts, d, c, e, ts). nat (e - c))") auto

declare slots_loop.simps [simp del]

text \<open>The query of lines 88-94: the employee's appointments of the date, cancelled ones left out.\<close>

definition day_appointments :: "session \<Rightarrow> int \<Rightarrow> date \<Rightarrow> appointment list" where
  "day_appointments db eid d =
     filter (\<lambda>a. employee_id a = eid \<and> appointment_date a = d \<and> status a \<noteq> ''cancelled'')
       (appointments db)"

text \<open>The function has no \<^verbatim>\<open>raise\<close>: every path returns a list.\<close>

definition get_employee_availability :: "session \<Rightarrow> int \<Rightarrow> date \<Rightarrow> error + slot list" where
  "get_employee_availability db eid d =
     (case get_employee db eid of
        None \<Rightarrow> Inr []
      | Some employee \<Rightarrow>
          if strftime_a d \<notin> set (split_comma (working_days employee)) then Inr []
          else
            (let appts = day_appointments db eid d
             in Inr (slots_loop appts d (combine d (emp_start_time employee))
                       (combine d (emp_end_time employee)) [])))"

subsection \<open>book_appointment\<close>

text \<open>Python's truth value of an \<^verbatim>\<open>Optional[int]\<close>: \<^verbatim>\<open>None\<close> and 0 are false.\<close>

fun truthy :: "int option \<Rightarrow> int option" where
  "truthy None = None"
| "truthy (Some n) = (if n = 0 then None else Some n)"

text \<open>Lines 144-148: the duration of the booking, in minutes.\<close>

definition booking_duration :: "session \<Rightarrow> int option \<Rightarrow> int" where
  "booking_duration db sid =
     (case truthy sid of
        None \<Rightarrow> 30
      | Some i \<Rightarrow> (case get_service db i of None \<Rightarrow> 30 | Some s \<Rightarrow> duration_minutes s))"

text \<open>The filter of the query for a conflicting appointment (lines 154-166).\<close>

definition conflicts :: "int \<Rightarrow> date \<Rightarrow> time \<Rightarrow> time \<Rightarrow> appointment \<Rightarrow> bool" where
  "conflicts eid d start_time_obj end_time_obj a =
     (employee_id a = eid \<and> appointment_date a = d \<and> status a \<noteq> ''cancelled'' \<and>
      ((start_time a \<le> start_time_obj \<and> end_time a > start_time_obj) \<or>
       (start_time a < end_time_obj \<and> end_time a \<ge> end_time_obj)))"

text \<open>
  Lines 150-151 before \<^verbatim>\<open>.time()\<close>: \<^verbatim>\<open>datetime.combine(date.today(), start_time_obj) +
  timedelta(minutes=duration)\<close>, which raises when the duration or the sum is out of
  range.
\<close>

definition end_datetime :: "date \<Rightarrow> time \<Rightarrow> int \<Rightarrow> error + datetime" where
  "end_datetime today start_time_obj duration =
     (case timedelta_minutes duration of
        Inl e \<Rightarrow> Inl e
      | Inr delta \<Rightarrow> datetime_add (combine today start_time_obj) delta)"

text \<open>
  \<open>today\<close> is \<^verbatim>\<open>date.today()\<close>. The result is the value returned or the error
  raised, and the session as the call leaves it: what \<open>register_customer\<close> has
  committed stays committed when a later line raises.
\<close>

definition book_appointment ::
  "session \<Rightarrow> date \<Rightarrow> int \<Rightarrow> string \<Rightarrow> string \<Rightarrow> date \<Rightarrow> string \<Rightarrow> int option \<Rightarrow> string
     \<Rightarrow> (error + appointment) \<times> session" where
  "book_appointment db today eid customer_phone customer_name appt_date start_str sid nts =
     (case register_customer db customer_name customer_phone of
        (customer, db1) \<Rightarrow>
     (case get_employee db1 eid of
        None \<Rightarrow> (Inl StaffNotFound, db1)
      | Some employee \<Rightarrow>
     (case strptime_HM start_str of
        None \<Rightarrow> (Inl InvalidTimeFormat, db1)
      | Some start_time_obj \<Rightarrow>
          (let duration = booking_duration db1 sid
           in case end_datetime today start_time_obj duration of
                Inl overflow \<Rightarrow> (Inl overflow, db1)
              | Inr end_dt \<Rightarrow>
          (let end_time_obj = time_of end_dt
           in case find (conflicts eid appt_date start_time_obj end_time_obj)
                     (appointments db1) of
                Some conflicting \<Rightarrow> (Inl SlotUnavailable, db1)
              | None \<Rightarrow>
                  (let appointment =
                         \<lparr>appt_id = next_id (map appt_id (appointments db1)),
                          shop_id = emp_shop_id employee,
                          employee_id = eid,
                          customer_id = cust_id customer,
                          service_id = sid,
                          appointment_date = appt_date,
                          start_time = start_time_obj,
                          end_time = end_time_obj,
                          appt_notes = nts,
                          status = ''scheduled''\<rparr>
                   in (Inr appointment,
                       db1\<lparr>appointments := appointments db1 @ [appointment]\<rparr>)))))))"

text \<open>The durations for which the sum of lines 150-151 does not raise.\<close>

definition representable :: "date \<Rightarrow> time \<Rightarrow> int \<Rightarrow> bool" where
  "representable today s duration =
     (- 999999999 \<le> duration div 1440 \<and> duration div 1440 \<le> 999999999 \<and>
      1440 \<le> combine today s + duration \<and> combine today s + duration < 5258966400)"

text \<open>The appointment that a successful call constructs (lines 172-182).\<close>

definition booked ::
  "session \<Rightarrow> employee \<Rightarrow> customer \<Rightarrow> int \<Rightarrow> date \<Rightarrow> time \<Rightarrow> int option \<Rightarrow> string
     \<Rightarrow> appointment" where
  "booked db e c eid ad s sid nts =
     \<lparr>appt_id = next_id (map appt_id (appointments db)),
      shop_id = emp_shop_id e, employee_id = eid, customer_id = cust_id c,
      service_id = sid, appointment_date = ad, start_time = s,
      end_time = nat ((int s + booking_duration db sid) mod 1440),
      appt_notes = nts, status = ''scheduled''\<rparr>"

subsection \<open>get_next_available_slot\<close>

record next_slot =
  ns_employee_id :: int
  ns_employee_name :: "string option"
  ns_date :: date
  ns_time :: time

text \<open>The loop over the active employees of the shop, for one date.\<close>

fun shop_scan :: "session \<Rightarrow> date \<Rightarrow> employee list \<Rightarrow> error + next_slot option" where
  "shop_scan db check_date [] = Inr None"
| "shop_scan db check_date (emp # emps) =
     (case get_employee_availability db (emp_id emp) check_date of
        Inl e \<Rightarrow> Inl e
      | Inr [] \<Rightarrow> shop_scan db check_date emps
      | Inr (s # _) \<Rightarrow>
          Inr (Some \<lparr>ns_employee_id = emp_id emp, ns_employee_name = Some (emp_name emp),
                     ns_date = check_date, ns_time = slot_start_time s\<rparr>))"

text \<open>The query of lines 241-244: the active employees of the shop, in table order.\<close>

definition active_staff :: "session \<Rightarrow> int \<Rightarrow> employee list" where
  "active_staff db shid = filter (\<lambda>e. emp_shop_id e = shid \<and> is_active e) (employees db)"

text \<open>The loop over \<^verbatim>\<open>range(max_days_ahead)\<close>.\<close>

fun days_loop ::
  "session \<Rightarrow> date \<Rightarrow> int option \<Rightarrow> int option \<Rightarrow> nat list \<Rightarrow> error + next_slot option" where
  "days_loop db current_date employee_id' shop_id' [] = Inr None"
| "days_loop db current_date employee_id' shop_id' (days_ahead # rest) =
     (let check_date = current_date + int days_ahead
      in case truthy employee_id' of
           Some eid \<Rightarrow>
             (case get_employee_availability db eid check_date of
                Inl e \<Rightarrow> Inl e
              | Inr [] \<Rightarrow> days_loop db current_date employee_id' shop_id' rest
              | Inr (s # _) \<Rightarrow>
                  Inr (Some \<lparr>ns_employee_id = eid, ns_employee_name = None,
                             ns_date = check_date, ns_time = slot_start_time s\<rparr>))
         | None \<Rightarrow>
             (case truthy shop_id' of
                Some shid \<Rightarrow>
                  (case shop_scan db check_date (active_staff db shid) of
                     Inl e \<Rightarrow> Inl e
                   | Inr (Some r) \<Rightarrow> Inr (Some r)
                   | Inr None \<Rightarrow> days_loop db current_date employee_id' shop_id' rest)
              | None \<Rightarrow> days_loop db current_date employee_id' shop_id' rest))"

definition get_next_available_slot ::
  "session \<Rightarrow> date \<Rightarrow> int option \<Rightarrow> int option \<Rightarrow> error + next_slot option" where
  "get_next_available_slot db today employee_id' shop_id' =
     days_loop db today employee_id' shop_id' [0..<30]"

section \<open>The specification's words, for comparison with the code\<close>

text \<open>
  Section 4.2 of the specification: the candidate slots are stepped from the window start
  in steps of 30 minutes while \<open>current + 30\<close> does not pass the window end.
\<close>

definition spec_candidates :: "datetime \<Rightarrow> datetime \<Rightarrow> datetime list" where
  "spec_candidates window_start window_end =
     map (\<lambda>k. window_start + 30 * int k) [0..<nat ((window_end - window_start) div 30)]"

text \<open>
  Half-open overlap: two intervals overlap unless
  \<open>candidate_end \<le> appt_start \<or> candidate_start \<ge> appt_end\<close>.
\<close>

definition spec_overlap :: "int \<Rightarrow> int \<Rightarrow> int \<Rightarrow> int \<Rightarrow> bool" where
  "spec_overlap candidate_start candidate_end appt_start appt_end =
     (\<not> (candidate_end \<le> appt_start \<or> candidate_start \<ge> appt_end))"

definition spec_free :: "date \<Rightarrow> appointment list \<Rightarrow> datetime \<Rightarrow> bool" where
  "spec_free d appts c =
     list_all (\<lambda>a. \<not> spec_overlap c (c + 30) (combine d (start_time a)) (combine d (end_time a)))
       appts"

definition spec_slot :: "datetime \<Rightarrow> slot" where
  "spec_slot c =
     \<lparr>slot_start_time = time_of c, slot_end_time = time_of (c + 30), available = True\<rparr>"

text \<open>
  Section 8, no double-booking: two appointments of the same employee and date, neither
  cancelled, clash when their intervals overlap; a table is double-booked when two of its
  rows clash.
\<close>

definition spec_clash :: "appointment \<Rightarrow> appointment \<Rightarrow> bool" where
  "spec_clash a b =
     (employee_id a = employee_id b \<and> appointment_date a = appointment_date b \<and>
      status a \<noteq> ''cancelled'' \<and> status b \<noteq> ''cancelled'' \<and>
      spec_overlap (combine (appointment_date a) (start_time a))
        (combine (appointment_date a) (end_time a))
        (combine (appointment_date b) (start_time b))
        (combine (appointment_date b) (end_time b)))"

fun spec_double_booked :: "appointment list \<Rightarrow> bool" where
  "spec_double_booked [] = False"
| "spec_double_booked (a # as) = (list_ex (spec_clash a) as \<or> spec_double_booked as)"

section \<open>Example sessions\<close>

text \<open>
  A shop with one employee (id 1), after \<^verbatim>\<open>add_employee\<close>; the services and their
  durations are those of setup.py. Ordinal 738886 is Monday 2024-01-01.
\<close>

definition example_employee :: "string \<Rightarrow> time \<Rightarrow> time \<Rightarrow> employee" where
  "example_employee days t_start t_end =
     \<lparr>emp_id = 1, emp_shop_id = 1, emp_name = ''Mike Johnson'', is_active = True,
      working_days = days, emp_start_time = t_start, emp_end_time = t_end\<rparr>"

definition example_services :: "service list" where
  "example_services =
     [\<lparr>svc_id = 1, svc_shop_id = 1, svc_name = ''Basic Haircut'', duration_minutes = 30\<rparr>,
      \<lparr>svc_id = 2, svc_shop_id = 1, svc_name = ''Haircut + Beard'', duration_minutes = 45\<rparr>,
      \<lparr>svc_id = 3, svc_shop_id = 1, svc_name = ''Premium Package'', duration_minutes = 60\<rparr>]"

definition example_appointment :: "int \<Rightarrow> date \<Rightarrow> time \<Rightarrow> time \<Rightarrow> appointment" where
  "example_appointment i d t_start t_end =
     \<lparr>appt_id = i, shop_id = 1, employee_id = 1, customer_id = 1, service_id = None,
      appointment_date = d, start_time = t_start, end_time = t_end, appt_notes = [],
      status = ''scheduled''\<rparr>"

definition example_session ::
  "string \<Rightarrow> time \<Rightarrow> time \<Rightarrow> customer list \<Rightarrow> appointment list \<Rightarrow> session" where
  "example_session days t_start t_end custs appts =
     \<lparr>employees = [example_employee days t_start t_end], customers = custs,
      services = example_services, appointments = appts\<rparr>"

text \<open>
  The shop before any booking, and the shop of the specification's example: window
  09:00-12:00, one customer, and her appointment 10:00-10:30 on Monday 2024-01-01.
\<close>

definition empty_shop :: session where
  "empty_shop = example_session ''Mon,Tue,Wed,Thu,Fri,Sat'' 540 720 [] []"

definition booked_shop :: session where
  "booked_shop =
     example_session ''Mon,Tue,Wed,Thu,Fri,Sat'' 540 720
       [\<lparr>cust_id = 1, cust_name = ''Ann Lee'', cust_phone = ''555-2001''\<rparr>]
       [example_appointment 1 738886 600 630]"

text \<open>A shop whose services last 25 hours and 6000000000 minutes.\<close>

definition long_service_shop :: session where
  "long_service_shop =
     \<lparr>employees = [example_employee ''Mon,Tue,Wed,Thu,Fri,Sat'' 540 720], customers = [],
      services = [\<lparr>svc_id = 1, svc_shop_id = 1, svc_name = ''Full Day'',
                   duration_minutes = 1500\<rparr>,
                  \<lparr>svc_id = 2, svc_shop_id = 1, svc_name = ''Endless'',
                   duration_minutes = 6000000000\<rparr>],
      appointments = []\<rparr>"

text \<open>
  Window 09:00-10:30 on Monday 2024-01-01 with five rows: the employee's scheduled
  appointment 09:00-09:30; 09:30-10:00 three times, cancelled, of another employee, and on
  the day after; and the employee's completed appointment 10:00-10:30.
\<close>

definition mixed_rows_shop :: session where
  "mixed_rows_shop =
     example_session ''Mon,Tue,Wed,Thu,Fri,Sat'' 540 630 []
       [example_appointment 1 738886 540 570,
        (example_appointment 2 738886 570 600)\<lparr>status := ''cancelled''\<rparr>,
        (example_appointment 3 738886 570 600)\<lparr>employee_id := 2\<rparr>,
        example_appointment 4 738887 570 600,
        (example_appointment 5 738886 600 630)\<lparr>status := ''completed''\<rparr>]"

text \<open>
  Four employees. The first row is an inactive employee of shop 1 who would work on
  Sundays and Mondays. Of the active ones, employee 1 works on Tuesdays and employee 2 on
  Mondays, both in shop 1; employee 3, of shop 2, has no working day. Ordinal 738885 is
  Sunday 2023-12-31.
\<close>

definition three_barbers :: session where
  "three_barbers =
     \<lparr>employees =
        [\<lparr>emp_id = 4, emp_shop_id = 1, emp_name = ''Joe Old'', is_active = False,
          working_days = ''Sun,Mon'', emp_start_time = 540, emp_end_time = 1080\<rparr>,
         \<lparr>emp_id = 1, emp_shop_id = 1, emp_name = ''Mike Johnson'', is_active = True,
          working_days = ''Tue'', emp_start_time = 540, emp_end_time = 1080\<rparr>,
         \<lparr>emp_id = 2, emp_shop_id = 1, emp_name = ''Sarah Williams'', is_active = True,
          working_days = ''Mon'', emp_start_time = 600, emp_end_time = 1140\<rparr>,
         \<lparr>emp_id = 3, emp_shop_id = 2, emp_name = ''Tom Hill'', is_active = True,
          working_days = [], emp_start_time = 540, emp_end_time = 1080\<rparr>],
      customers = [], services = example_services, appointments = []\<rparr>"

section \<open>Slot generation\<close>

lemma is_available_spec_free: "is_available d c (c + 30) appts = spec_free d appts c"
  by (induction appts) (auto simp: spec_free_def spec_overlap_def Let_def)

lemma spec_candidates_step:
  assumes "c + 30 \<le> e"
  shows "spec_candidates c e = c # spec_candidates (c + 30) e"
proof -
  have "(e - c) div 30 = (e - (c + 30)) div 30 + 1"
    by simp
  moreover have "0 \<le> (e - (c + 30)) div 30"
    using assms by simp
  ultimately have n: "nat ((e - c) div 30) = Suc (nat ((e - (c + 30)) div 30))"
    by simp
  have "[0..<Suc (nat ((e - (c + 30)) div 30))] = 0 # map Suc [0..<nat ((e - (c + 30)) div 30)]"
    by (simp add: upt_conv_Cons map_Suc_upt del: upt_Suc)
  then show ?thesis
    unfolding spec_candidates_def n by (simp add: o_def algebra_simps)
qed

lemma spec_candidates_done: "\<not> c + 30 \<le> e \<Longrightarrow> spec_candidates c e = []"
  by (simp add: spec_candidates_def)

lemma slots_loop_spec:
  "slots_loop appts d c e acc =
     acc @ map spec_slot (filter (spec_free d appts) (spec_candidates c e))"
proof (induction appts d c e acc rule: slots_loop.induct)
  case (1 appts d c e acc)
  show ?case
  proof (cases "c + 30 \<le> e")
    case True
    let ?acc' = "if is_available d c (c + 30) appts
                 then acc @ [\<lparr>slot_start_time = time_of c, slot_end_time = time_of (c + 30),
                               available = True\<rparr>]
                 else acc"
    have "slots_loop appts d c e acc = slots_loop appts d (c + 30) e ?acc'"
      using True by (subst slots_loop.simps) (simp add: Let_def)
    also have "\<dots> = ?acc' @ map spec_slot (filter (spec_free d appts) (spec_candidates (c + 30) e))"
      by (rule "1.IH" [OF True refl refl])
    also have "\<dots> = acc @ map spec_slot (filter (spec_free d appts) (spec_candidates c e))"
      using True by (simp add: spec_candidates_step is_available_spec_free spec_slot_def)
    finally show ?thesis .
  next
    case False
    then show ?thesis
      by (subst slots_loop.simps) (simp add: spec_candidates_done)
  qed
qed

text \<open>
  Claim C4. For an employee who works on the date, \<open>get_employee_availability\<close> returns
  exactly the 30-minute candidate slots stepped from the window start that overlap, under
  the half-open rule, none of the rows of the appointments table that are of this
  employee, of this date and not cancelled, in order. A slot whose end is an appointment's
  start, or whose start is an appointment's end, does not overlap it.
\<close>

theorem availability_free_candidates:
  assumes "get_employee db eid = Some e"
    and "strftime_a d \<in> set (split_comma (working_days e))"
  shows "get_employee_availability db eid d =
           Inr (map spec_slot
                 (filter
                   (spec_free d
                     (filter (\<lambda>a. employee_id a = eid \<and> appointment_date a = d \<and>
                                   status a \<noteq> ''cancelled'') (appointments db)))
                   (spec_candidates (combine d (emp_start_time e)) (combine d (emp_end_time e)))))
         \<and> \<not> spec_overlap c (c + 30) (c + 30) later
         \<and> \<not> spec_overlap c (c + 30) earlier c"
  using assms
  by (simp add: get_employee_availability_def day_appointments_def slots_loop_spec
      spec_overlap_def)

text \<open>
  The specification's example: window 09:00-10:00, one appointment 09:00-09:30; the
  slots are 09:30-10:00 alone. And the table with five rows: the cancelled row, the row
  of another employee and the row of another date do not block 09:30-10:00, the scheduled
  and the completed row block theirs.
\<close>

theorem availability_free_candidates_witness:
  "get_employee_availability
     (example_session ''Mon,Tue,Wed,Thu,Fri'' 540 600 [] [example_appointment 1 738886 540 570])
     1 738886
   = Inr [\<lparr>slot_start_time = 570, slot_end_time = 600, available = True\<rparr>]
   \<and> get_employee_availability mixed_rows_shop 1 738886
   = Inr [\<lparr>slot_start_time = 570, slot_end_time = 600, available = True\<rparr>]"
proof -
  let ?db = "example_session ''Mon,Tue,Wed,Thu,Fri'' 540 600 [] [example_appointment 1 738886 540 570]"
  let ?e = "example_employee ''Mon,Tue,Wed,Thu,Fri'' 540 600"
  let ?m = "example_employee ''Mon,Tue,Wed,Thu,Fri,Sat'' 540 630"
  have h1: "get_employee ?db 1 = Some ?e"
    by (simp add: get_employee_def example_session_def example_employee_def)
  have h2: "strftime_a 738886 \<in> set (split_comma (working_days ?e))"
    by (simp add: strftime_a_def example_employee_def)
  have ev: "map spec_slot
                 (filter
                   (spec_free 738886
                     (filter (\<lambda>a. employee_id a = 1 \<and> appointment_date a = 738886 \<and>
                                   status a \<noteq> ''cancelled'') (appointments ?db)))
                   (spec_candidates (combine 738886 (emp_start_time ?e)) (combine 738886 (emp_end_time ?e))))
            = [\<lparr>slot_start_time = 570, slot_end_time = 600, available = True\<rparr>]"
    by code_simp
  have m1: "get_employee mixed_rows_shop 1 = Some ?m"
    by (simp add: get_employee_def mixed_rows_shop_def example_session_def example_employee_def)
  have m2: "strftime_a 738886 \<in> set (split_comma (working_days ?m))"
    by (simp add: strftime_a_def example_employee_def)
  have mv: "map spec_slot
                 (filter
                   (spec_free 738886
                     (filter (\<lambda>a. employee_id a = 1 \<and> appointment_date a = 738886 \<and>
                                   status a \<noteq> ''cancelled'') (appointments mixed_rows_shop)))
                   (spec_candidates (combine 738886 (emp_start_time ?m)) (combine 738886 (emp_end_time ?m))))
            = [\<lparr>slot_start_time = 570, slot_end_time = 600, available = True\<rparr>]"
    by code_simp
  have r1: "get_employee_availability ?db 1 738886
      = Inr [\<lparr>slot_start_time = 570, slot_end_time = 600, available = True\<rparr>]"
    using availability_free_candidates [OF h1 h2] ev by simp
  have r2: "get_employee_availability mixed_rows_shop 1 738886
      = Inr [\<lparr>slot_start_time = 570, slot_end_time = 600, available = True\<rparr>]"
    using availability_free_candidates [OF m1 m2] mv by simp
  from r1 r2 show ?thesis
    by blast
qed

text \<open>
  Claim C7. On a date whose weekday abbreviation is not among the employee's
  comma-separated working days, \<open>get_employee_availability\<close> returns the empty list
  (it does not raise), whatever the window times.
\<close>

theorem non_working_day_no_slots:
  assumes "get_employee db eid = Some e"
    and "strftime_a d \<notin> set (split_comma (working_days e))"
  shows "get_employee_availability db eid d = Inr []"
  using assms by (simp add: get_employee_availability_def)

text \<open>Working days \<^verbatim>\<open>Tue,Wed\<close>, asked for a Monday.\<close>

theorem non_working_day_no_slots_witness:
  "get_employee_availability (example_session ''Tue,Wed'' 540 1020 [] []) 1 738886 = Inr []
   \<and> strftime_a 738886 = ''Mon''"
proof -
  let ?db = "example_session ''Tue,Wed'' 540 1020 [] []"
  let ?e = "example_employee ''Tue,Wed'' 540 1020"
  have h1: "get_employee ?db 1 = Some ?e"
    by (simp add: get_employee_def example_session_def example_employee_def)
  have h2: "strftime_a 738886 \<notin> set (split_comma (working_days ?e))"
    by (simp add: strftime_a_def example_employee_def)
  show ?thesis
    using non_working_day_no_slots [OF h1 h2] by (simp add: strftime_a_def)
qed

section \<open>Customer registration and booking\<close>

lemma find_snoc:
  "find P (xs @ [x]) =
     (case find P xs of Some y \<Rightarrow> Some y | None \<Rightarrow> if P x then Some x else None)"
  by (induction xs) auto

lemma register_customer_tables:
  "employees (snd (register_customer db name phone)) = employees db"
  "services (snd (register_customer db name phone)) = services db"
  "appointments (snd (register_customer db name phone)) = appointments db"
  by (simp_all add: register_customer_def Let_def split: option.split)

lemma register_customer_customers:
  "customers (snd (register_customer db name phone)) =
     (case find (\<lambda>c. cust_phone c = phone) (customers db) of
        Some c \<Rightarrow> customers db
      | None \<Rightarrow> customers db @ [\<lparr>cust_id = next_id (map cust_id (customers db)),
                                  cust_name = name, cust_phone = phone\<rparr>])"
  by (simp add: register_customer_def Let_def split: option.split)

lemma register_customer_lookups:
  "get_employee (snd (register_customer db name phone)) i = get_employee db i"
  "get_service (snd (register_customer db name phone)) i = get_service db i"
  by (simp_all add: get_employee_def get_service_def register_customer_tables)

lemma register_customer_duration:
  "booking_duration (snd (register_customer db name phone)) sid = booking_duration db sid"
  by (simp add: booking_duration_def register_customer_lookups cong: option.case_cong)

lemma register_customer_found:
  "find (\<lambda>c. cust_phone c = phone) (customers (snd (register_customer db name phone))) =
     Some (fst (register_customer db name phone))"
  by (simp add: register_customer_def Let_def find_snoc split: option.split)

lemma register_customer_again:
  "register_customer (snd (register_customer db name phone)) name' phone =
     (fst (register_customer db name phone), snd (register_customer db name phone))"
  using register_customer_found [of phone db name]
  by (simp add: register_customer_def [of "snd (register_customer db name phone)"])

lemma time_of_combine_plus:
  "time_of (combine today s + duration) = nat ((int s + duration) mod 1440)"
proof -
  have "today * 1440 + int s + duration = (int s + duration) + today * 1440"
    by simp
  then have "(today * 1440 + int s + duration) mod 1440 = (int s + duration) mod 1440"
    by (simp only: mod_mult_self1 mod_mult_self2)
  then show ?thesis
    by (simp add: time_of_def combine_def)
qed

lemma end_datetime_cases:
  "end_datetime today s duration =
     (if representable today s duration then Inr (combine today s + duration)
      else Inl OverflowError)"
  by (simp add: end_datetime_def timedelta_minutes_def datetime_add_def representable_def)

lemma book_appointment_paths:
  "book_appointment db today eid phone name ad st sid nts =
     (let c = fst (register_customer db name phone);
          db1 = snd (register_customer db name phone)
      in case get_employee db eid of
           None \<Rightarrow> (Inl StaffNotFound, db1)
         | Some e \<Rightarrow>
             (case strptime_HM st of
                None \<Rightarrow> (Inl InvalidTimeFormat, db1)
              | Some s \<Rightarrow>
                  if \<not> representable today s (booking_duration db sid)
                  then (Inl OverflowError, db1)
                  else
                  (case find (conflicts eid ad s (nat ((int s + booking_duration db sid) mod 1440)))
                          (appointments db) of
                     Some x \<Rightarrow> (Inl SlotUnavailable, db1)
                   | None \<Rightarrow>
                       (Inr (booked db e c eid ad s sid nts),
                        db1\<lparr>appointments := appointments db @ [booked db e c eid ad s sid nts]\<rparr>))))"
proof -
  obtain c db1 where rc: "register_customer db name phone = (c, db1)"
    by (cases "register_customer db name phone")
  have l: "get_employee db1 eid = get_employee db eid"
    "booking_duration db1 sid = booking_duration db sid"
    "appointments db1 = appointments db"
    using register_customer_lookups [of db name phone] register_customer_tables [of db name phone]
      register_customer_duration [of db name phone]
    by (simp_all add: rc)
  show ?thesis
    by (simp add: book_appointment_def rc l Let_def end_datetime_cases time_of_combine_plus
        booked_def split: option.split)
qed

lemma register_customer_known:
  "find (\<lambda>c. cust_phone c = phone) (customers db) = Some c \<Longrightarrow>
   register_customer db name phone = (c, db)"
  by (simp add: register_customer_def)

lemma book_appointment_tables:
  assumes "book_appointment db today eid phone name ad st sid nts = (r, db')"
  shows "employees db' = employees db" and "services db' = services db"
    and "customers db' = customers (snd (register_customer db name phone))"
    and "case r of Inl err \<Rightarrow> appointments db' = appointments db
         | Inr a \<Rightarrow> appointments db' = appointments db @ [a]"
    and "\<And>a. r = Inr a \<Longrightarrow> customer_id a = cust_id (fst (register_customer db name phone))"
  using assms
  by (auto simp: book_appointment_paths Let_def register_customer_tables booked_def
      split: option.splits if_splits)

text \<open>
  Claim C9. Registration is keyed on the phone number: after \<open>register_customer\<close> with
  a phone number, a second call with the same number and any name returns the same
  customer and leaves the session as it is; and of two bookings with the same phone number
  the second creates no customer record and books for the customer the first resolved.
\<close>

theorem register_customer_idempotent:
  assumes "register_customer db name1 phone = (c1, db1)"
    and "register_customer db1 name2 phone = (c2, db2)"
    and "book_appointment db today0 eid0 phone name1 ad0 st0 sid0 nts0 = (r0, dbA)"
    and "book_appointment dbA today eid phone name3 ad st sid nts = (r, dbB)"
  shows "c2 = c1 \<and> db2 = db1 \<and> customers dbA = customers db1 \<and> customers dbB = customers dbA
         \<and> (\<forall>a0. r0 = Inr a0 \<longrightarrow> customer_id a0 = cust_id c1)
         \<and> (\<forall>a. r = Inr a \<longrightarrow> customer_id a = cust_id c1)"
proof -
  have c1: "c1 = fst (register_customer db name1 phone)"
    and db1: "db1 = snd (register_customer db name1 phone)"
    using assms(1) by simp_all
  have again: "register_customer db1 name2 phone = (c1, db1)"
    unfolding c1 db1 by (rule register_customer_again)
  have A: "customers dbA = customers db1"
    using book_appointment_tables(3) [OF assms(3)] by (simp add: db1)
  have "find (\<lambda>c. cust_phone c = phone) (customers dbA) = Some c1"
    unfolding A c1 db1 by (rule register_customer_found)
  then have known: "register_customer dbA name3 phone = (c1, dbA)"
    by (rule register_customer_known)
  have B: "customers dbB = customers dbA"
    using book_appointment_tables(3) [OF assms(4)] by (simp add: known)
  have r0: "\<forall>a0. r0 = Inr a0 \<longrightarrow> customer_id a0 = cust_id c1"
    using book_appointment_tables(5) [OF assms(3)] by (simp add: c1)
  have r: "\<forall>a. r = Inr a \<longrightarrow> customer_id a = cust_id c1"
    using book_appointment_tables(5) [OF assms(4)] by (simp add: known)
  show ?thesis
    using again assms(2) A B r0 r by simp
qed

text \<open>The same phone number with the names \<^verbatim>\<open>Ann Lee\<close>, \<^verbatim>\<open>ANN LEE\<close> and \<^verbatim>\<open>ann lee\<close>.\<close>

theorem register_customer_idempotent_witness:
  "(let W = example_session ''Mon,Tue,Wed,Thu,Fri,Sat'' 540 1080 [] [];
        R1 = register_customer W ''Ann Lee'' ''555-2001'';
        R2 = register_customer (snd R1) ''ANN LEE'' ''555-2001'';
        B1 = book_appointment W 738885 1 ''555-2001'' ''Ann Lee'' 738886 ''10:00'' None [];
        B2 = book_appointment (snd B1) 738885 1 ''555-2001'' ''ann lee'' 738886 ''11:00'' (Some 2) []
    in cust_id (fst R1) = 1 \<and> fst R2 = fst R1 \<and> snd R2 = snd R1
       \<and> customers (snd B1) = [\<lparr>cust_id = 1, cust_name = ''Ann Lee'', cust_phone = ''555-2001''\<rparr>]
       \<and> customers (snd B2) = customers (snd B1)
       \<and> map customer_id (appointments (snd B2)) = [1, 1])"
proof -
  let ?W = "example_session ''Mon,Tue,Wed,Thu,Fri,Sat'' 540 1080 [] []"
  let ?R1 = "register_customer ?W ''Ann Lee'' ''555-2001''"
  let ?R2 = "register_customer (snd ?R1) ''ANN LEE'' ''555-2001''"
  let ?B1 = "book_appointment ?W 738885 1 ''555-2001'' ''Ann Lee'' 738886 ''10:00'' None []"
  let ?B2 = "book_appointment (snd ?B1) 738885 1 ''555-2001'' ''ann lee'' 738886 ''11:00'' (Some 2) []"
  have ev: "cust_id (fst ?R1) = 1"
    "customers (snd ?R1) = [\<lparr>cust_id = 1, cust_name = ''Ann Lee'', cust_phone = ''555-2001''\<rparr>]"
    "map customer_id (appointments (snd ?B2)) = [1, 1]"
    by code_simp+
  have "fst ?R2 = fst ?R1 \<and> snd ?R2 = snd ?R1 \<and> customers (snd ?B1) = customers (snd ?R1)
        \<and> customers (snd ?B2) = customers (snd ?B1)"
    using register_customer_idempotent [of ?W "''Ann Lee''" "''555-2001''" "fst ?R1" "snd ?R1"
        "''ANN LEE''" "fst ?R2" "snd ?R2" 738885 1 738886 "''10:00''" None "[]" "fst ?B1" "snd ?B1"
        738885 1 "''ann lee''" 738886 "''11:00''" "Some 2" "[]" "fst ?B2" "snd ?B2"]
    by simp
  then show ?thesis
    using ev by (simp add: Let_def)
qed

text \<open>
  Claim C3, as the code has it. \<open>register_customer\<close> commits before the employee is
  looked up and before the conflict query runs, so a failed booking leaves the customer
  upsert behind: it stores no appointment and changes no employee, service or existing
  customer, but the session it leaves is the one after \<open>register_customer\<close>, with a new
  customer record when the phone number was unknown. A successful booking appends exactly
  its appointment.
\<close>

theorem booking_state_change:
  assumes "book_appointment db today eid phone name ad st sid nts = (r, db')"
  shows "employees db' = employees db \<and> services db' = services db
         \<and> customers db' =
             (case find (\<lambda>c. cust_phone c = phone) (customers db) of
                Some c \<Rightarrow> customers db
              | None \<Rightarrow> customers db @ [\<lparr>cust_id = next_id (map cust_id (customers db)),
                                          cust_name = name, cust_phone = phone\<rparr>])
         \<and> (case r of
               Inl err \<Rightarrow> db' = snd (register_customer db name phone)
                          \<and> appointments db' = appointments db
             | Inr a \<Rightarrow> appointments db' = appointments db @ [a])"
proof -
  have "case r of Inl err \<Rightarrow> db' = snd (register_customer db name phone) | Inr a \<Rightarrow> True"
    using assms by (auto simp: book_appointment_paths Let_def split: option.splits if_splits)
  then show ?thesis
    using book_appointment_tables [OF assms]
    by (simp add: register_customer_customers split: sum.splits)
qed

text \<open>
  The claim as stated fails: a booking for an unknown employee, and a booking rejected
  for a conflict, each leave a new customer record.
\<close>

theorem booking_state_change_counterexample:
  "fst (book_appointment empty_shop 738885 7 ''555-2001'' ''Ann Lee'' 738886 ''10:00'' None [])
     = Inl StaffNotFound
   \<and> customers empty_shop = []
   \<and> customers (snd (book_appointment empty_shop 738885 7 ''555-2001'' ''Ann Lee'' 738886
                       ''10:00'' None []))
     = [\<lparr>cust_id = 1, cust_name = ''Ann Lee'', cust_phone = ''555-2001''\<rparr>]
   \<and> fst (book_appointment booked_shop 738885 1 ''555-2002'' ''Bob Ray'' 738886 ''10:00'' None [])
     = Inl SlotUnavailable
   \<and> customers (snd (book_appointment booked_shop 738885 1 ''555-2002'' ''Bob Ray'' 738886
                       ''10:00'' None []))
     = customers booked_shop @ [\<lparr>cust_id = 2, cust_name = ''Bob Ray'', cust_phone = ''555-2002''\<rparr>]"
  by (intro conjI) code_simp+

theorem booking_state_change_witness:
  "fst (book_appointment booked_shop 738885 1 ''555-2002'' ''Bob Ray'' 738886 ''10:00'' None [])
     = Inl SlotUnavailable
   \<and> appointments (snd (book_appointment booked_shop 738885 1 ''555-2002'' ''Bob Ray'' 738886
                          ''10:00'' None []))
     = appointments booked_shop
   \<and> customers (snd (book_appointment booked_shop 738885 1 ''555-2002'' ''Bob Ray'' 738886
                       ''10:00'' None []))
     = customers booked_shop @ [\<lparr>cust_id = 2, cust_name = ''Bob Ray'', cust_phone = ''555-2002''\<rparr>]"
proof -
  let ?B = "book_appointment booked_shop 738885 1 ''555-2002'' ''Bob Ray'' 738886 ''10:00'' None []"
  have r: "fst ?B = Inl SlotUnavailable"
    by code_simp
  have h: "?B = (Inl SlotUnavailable, snd ?B)"
    by (simp add: prod_eq_iff r)
  have f: "find (\<lambda>c. cust_phone c = ''555-2002'') (customers booked_shop) = None"
    "next_id (map cust_id (customers booked_shop)) = 2"
    by code_simp+
  note S = booking_state_change [OF h, unfolded f option.case sum.case]
  from S have a: "appointments (snd ?B) = appointments booked_shop"
    by blast
  from S have c: "customers (snd ?B) = customers booked_shop @
      [\<lparr>cust_id = 2, cust_name = ''Bob Ray'', cust_phone = ''555-2002''\<rparr>]"
    by blast
  from r a c show ?thesis
    by blast
qed

text \<open>
  Claim C6. A successful booking appends an appointment with status \<^verbatim>\<open>scheduled\<close>
  whose start is the parsed start time and whose end is the start plus the duration, as a
  time of day (exactly the sum when that stays within the day). The duration is 30 without
  a service identifier or when the lookup misses, and the service's duration otherwise;
  the identifier 0, which no row created by \<^verbatim>\<open>add_service\<close> carries, counts as absent
  in Python.
\<close>

theorem booking_commitment:
  assumes "book_appointment db today eid phone name ad st sid nts = (Inr a, db')"
  shows "appointments db' = appointments db @ [a]
         \<and> status a = ''scheduled''
         \<and> strptime_HM st = Some (start_time a)
         \<and> int (end_time a) = (int (start_time a) + booking_duration db sid) mod 1440
         \<and> (0 \<le> int (start_time a) + booking_duration db sid \<and>
            int (start_time a) + booking_duration db sid < 1440 \<longrightarrow>
              int (end_time a) = int (start_time a) + booking_duration db sid)
         \<and> (sid = None \<longrightarrow> booking_duration db sid = 30)
         \<and> (\<forall>i. sid = Some i \<and> get_service db i = None \<longrightarrow> booking_duration db sid = 30)
         \<and> (\<forall>i s. sid = Some i \<and> i \<noteq> 0 \<and> get_service db i = Some s \<longrightarrow>
              booking_duration db sid = duration_minutes s)"
proof -
  have "appointments db' = appointments db @ [a]"
    using book_appointment_tables(4) [OF assms] by simp
  moreover have "status a = ''scheduled'' \<and> strptime_HM st = Some (start_time a)
      \<and> int (end_time a) = (int (start_time a) + booking_duration db sid) mod 1440"
    using assms
    by (auto simp: book_appointment_paths Let_def booked_def split: option.splits if_splits)
  moreover have "sid = None \<longrightarrow> booking_duration db sid = 30"
    by (simp add: booking_duration_def)
  moreover have "\<forall>i. sid = Some i \<and> get_service db i = None \<longrightarrow> booking_duration db sid = 30"
    by (simp add: booking_duration_def)
  moreover have "\<forall>i s. sid = Some i \<and> i \<noteq> 0 \<and> get_service db i = Some s \<longrightarrow>
              booking_duration db sid = duration_minutes s"
    by (simp add: booking_duration_def)
  ultimately show ?thesis
    by simp
qed

text \<open>A booking without a service identifier at 10:00 ends at 10:30.\<close>

theorem booking_commitment_witness:
  "fst (book_appointment empty_shop 738885 1 ''555-2001'' ''Ann Lee'' 738886 ''10:00'' None [])
     = Inr (example_appointment 1 738886 600 630)
   \<and> appointments (snd (book_appointment empty_shop 738885 1 ''555-2001'' ''Ann Lee'' 738886
                          ''10:00'' None []))
     = appointments empty_shop @ [example_appointment 1 738886 600 630]
   \<and> status (example_appointment 1 738886 600 630) = ''scheduled''
   \<and> strptime_HM ''10:00'' = Some 600
   \<and> booking_duration empty_shop None = 30
   \<and> end_time (example_appointment 1 738886 600 630) = 600 + 30"
proof -
  let ?B = "book_appointment empty_shop 738885 1 ''555-2001'' ''Ann Lee'' 738886 ''10:00'' None []"
  let ?a = "example_appointment 1 738886 600 630"
  have r: "fst ?B = Inr ?a"
    by code_simp
  have h: "?B = (Inr ?a, snd ?B)"
    by (simp add: prod_eq_iff r)
  note T = booking_commitment [OF h]
  from T have t1: "appointments (snd ?B) = appointments empty_shop @ [?a]"
    by blast
  from T have t2: "status ?a = ''scheduled''"
    by blast
  from T have t3: "strptime_HM ''10:00'' = Some (start_time ?a)"
    by blast
  from T have t4: "booking_duration empty_shop None = 30"
    by blast
  from T have t5: "int (end_time ?a) = (int (start_time ?a) + booking_duration empty_shop None) mod 1440"
    by blast
  have s: "start_time ?a = 600"
    by (simp add: example_appointment_def)
  have e: "end_time ?a = 600 + 30"
    using t5 by (simp add: t4 s)
  from r t1 t2 t3 [unfolded s] t4 e show ?thesis
    by blast
qed

section \<open>The search for the next available slot\<close>

lemma availability_total: "\<exists>slots. get_employee_availability db eid d = Inr slots"
  by (simp add: get_employee_availability_def split: option.split)

lemma horizon_split: "k < 30 \<Longrightarrow> [0..<30] = [0..<k] @ k # [Suc k..<30]"
  using upt_add_eq_append [of 0 k "30 - k"] by (simp add: upt_conv_Cons)

lemma days_loop_staff_skip:
  assumes "eid \<noteq> 0"
    and "\<forall>j\<in>set pre. get_employee_availability db eid (today + int j) = Inr []"
  shows "days_loop db today (Some eid) shid (pre @ rest) = days_loop db today (Some eid) shid rest"
  using assms by (induction pre) simp_all

lemma days_loop_staff_hit:
  assumes "eid \<noteq> 0"
    and "get_employee_availability db eid (today + int k) = Inr (s # ss)"
  shows "days_loop db today (Some eid) shid (k # rest) =
           Inr (Some \<lparr>ns_employee_id = eid, ns_employee_name = None,
                      ns_date = today + int k, ns_time = slot_start_time s\<rparr>)"
  using assms by simp

lemma shop_scan_skip:
  assumes "\<forall>x\<in>set pre. get_employee_availability db (emp_id x) d = Inr []"
  shows "shop_scan db d (pre @ rest) = shop_scan db d rest"
  using assms by (induction pre) simp_all

lemma shop_scan_hit:
  assumes "get_employee_availability db (emp_id e) d = Inr (s # ss)"
  shows "shop_scan db d (e # post) =
           Inr (Some \<lparr>ns_employee_id = emp_id e, ns_employee_name = Some (emp_name e),
                      ns_date = d, ns_time = slot_start_time s\<rparr>)"
  using assms by simp

lemma days_loop_shop_skip:
  assumes "truthy eo = None" and "shid \<noteq> 0"
    and "\<forall>j\<in>set pre. \<forall>x\<in>set (active_staff db shid).
           get_employee_availability db (emp_id x) (today + int j) = Inr []"
  shows "days_loop db today eo (Some shid) (pre @ rest) = days_loop db today eo (Some shid) rest"
  using assms
proof (induction pre)
  case Nil
  then show ?case by simp
next
  case (Cons j pre)
  have "shop_scan db (today + int j) (active_staff db shid @ []) = shop_scan db (today + int j) []"
    using Cons.prems(3) by (intro shop_scan_skip) simp
  then have "shop_scan db (today + int j) (active_staff db shid) = Inr None"
    by simp
  then show ?case
    using Cons by simp
qed

lemma days_loop_shop_hit:
  assumes "truthy eo = None" and "shid \<noteq> 0"
    and "active_staff db shid = pre @ e # post"
    and "\<forall>x\<in>set pre. get_employee_availability db (emp_id x) (today + int k) = Inr []"
    and "get_employee_availability db (emp_id e) (today + int k) = Inr (s # ss)"
  shows "days_loop db today eo (Some shid) (k # rest) =
           Inr (Some \<lparr>ns_employee_id = emp_id e, ns_employee_name = Some (emp_name e),
                      ns_date = today + int k, ns_time = slot_start_time s\<rparr>)"
proof -
  have "shop_scan db (today + int k) (active_staff db shid) =
          shop_scan db (today + int k) (e # post)"
    unfolding assms(3) using assms(4) by (rule shop_scan_skip)
  then show ?thesis
    using assms(1,2) shop_scan_hit [OF assms(5)] by simp
qed

lemma strftime_a_nonempty: "strftime_a d \<noteq> []"
proof -
  let ?days = "[''Mon'', ''Tue'', ''Wed'', ''Thu'', ''Fri'', ''Sat'', ''Sun'']"
  have "nat ((d + 6) mod 7) < length ?days"
    by simp
  then have "?days ! nat ((d + 6) mod 7) \<in> set ?days"
    by (rule nth_mem)
  then show ?thesis
    unfolding strftime_a_def by auto
qed

lemma below_two: "j < (2::nat) \<Longrightarrow> j = 0 \<or> j = 1"
  by arith

text \<open>
  Claim C5. \<open>get_next_available_slot\<close> looks at the dates \<open>today\<close>, \<open>today + 1\<close>, ...,
  \<open>today + 29\<close> in this order. With an employee identifier it returns the first slot of
  the first date on which the employee has a slot. With a shop identifier alone it returns,
  for the first date on which some active employee of the shop has a slot, the first such
  employee in table order and that employee's first slot. When no date of the horizon has
  a slot the result is \<^verbatim>\<open>None\<close>, returned and not raised. Since
  \<open>get_employee_availability\<close> always returns a list, these cases are exhaustive. The
  active employees of a shop are the rows of the employees table with that shop
  identifier and \<^verbatim>\<open>is_active\<close> set, in table order.
\<close>

theorem next_available_slot_search:
  "(eid \<noteq> 0 \<longrightarrow>
      (\<forall>k s ss. k < 30
           \<and> (\<forall>j<k. get_employee_availability db eid (today + int j) = Inr [])
           \<and> get_employee_availability db eid (today + int k) = Inr (s # ss) \<longrightarrow>
         get_next_available_slot db today (Some eid) any_shop =
           Inr (Some \<lparr>ns_employee_id = eid, ns_employee_name = None,
                      ns_date = today + int k, ns_time = slot_start_time s\<rparr>))
      \<and> ((\<forall>k<30. get_employee_availability db eid (today + int k) = Inr []) \<longrightarrow>
         get_next_available_slot db today (Some eid) any_shop = Inr None))
   \<and> (truthy eo = None \<and> shid \<noteq> 0 \<longrightarrow>
      (\<forall>k pre e post s ss. k < 30
           \<and> (\<forall>j<k. \<forall>x\<in>set (active_staff db shid).
                  get_employee_availability db (emp_id x) (today + int j) = Inr [])
           \<and> active_staff db shid = pre @ e # post
           \<and> (\<forall>x\<in>set pre. get_employee_availability db (emp_id x) (today + int k) = Inr [])
           \<and> get_employee_availability db (emp_id e) (today + int k) = Inr (s # ss) \<longrightarrow>
         get_next_available_slot db today eo (Some shid) =
           Inr (Some \<lparr>ns_employee_id = emp_id e, ns_employee_name = Some (emp_name e),
                      ns_date = today + int k, ns_time = slot_start_time s\<rparr>))
      \<and> ((\<forall>k<30. \<forall>x\<in>set (active_staff db shid).
             get_employee_availability db (emp_id x) (today + int k) = Inr []) \<longrightarrow>
         get_next_available_slot db today eo (Some shid) = Inr None))
   \<and> (\<exists>slots. get_employee_availability db some_id d = Inr slots)
   \<and> active_staff db shid = filter (\<lambda>x. emp_shop_id x = shid \<and> is_active x) (employees db)"
proof (intro conjI impI allI)
  fix k s ss
  assume "eid \<noteq> 0" and h: "k < 30
           \<and> (\<forall>j<k. get_employee_availability db eid (today + int j) = Inr [])
           \<and> get_employee_availability db eid (today + int k) = Inr (s # ss)"
  then show "get_next_available_slot db today (Some eid) any_shop =
           Inr (Some \<lparr>ns_employee_id = eid, ns_employee_name = None,
                      ns_date = today + int k, ns_time = slot_start_time s\<rparr>)"
    unfolding get_next_available_slot_def
    by (simp add: horizon_split [of k] days_loop_staff_skip days_loop_staff_hit del: upt_Suc days_loop.simps)
next
  assume "eid \<noteq> 0" and "\<forall>k<30. get_employee_availability db eid (today + int k) = Inr []"
  then show "get_next_available_slot db today (Some eid) any_shop = Inr None"
    unfolding get_next_available_slot_def
    using days_loop_staff_skip [of eid "[0..<30]" db today any_shop "[]"] by simp
next
  fix k pre e post s ss
  assume "truthy eo = None \<and> shid \<noteq> 0" and h: "k < 30
           \<and> (\<forall>j<k. \<forall>x\<in>set (active_staff db shid).
                  get_employee_availability db (emp_id x) (today + int j) = Inr [])
           \<and> active_staff db shid = pre @ e # post
           \<and> (\<forall>x\<in>set pre. get_employee_availability db (emp_id x) (today + int k) = Inr [])
           \<and> get_employee_availability db (emp_id e) (today + int k) = Inr (s # ss)"
  then show "get_next_available_slot db today eo (Some shid) =
           Inr (Some \<lparr>ns_employee_id = emp_id e, ns_employee_name = Some (emp_name e),
                      ns_date = today + int k, ns_time = slot_start_time s\<rparr>)"
    unfolding get_next_available_slot_def
    using days_loop_shop_skip [of eo shid "[0..<k]" db today "k # [Suc k..<30]"]
      days_loop_shop_hit [of eo shid db pre e post today k s ss "[Suc k..<30]"]
    by (simp add: horizon_split [of k] del: upt_Suc days_loop.simps)
next
  assume "truthy eo = None \<and> shid \<noteq> 0"
    and "\<forall>k<30. \<forall>x\<in>set (active_staff db shid).
             get_employee_availability db (emp_id x) (today + int k) = Inr []"
  then show "get_next_available_slot db today eo (Some shid) = Inr None"
    unfolding get_next_available_slot_def
    using days_loop_shop_skip [of eo shid "[0..<30]" db today "[]"] by simp
next
  show "\<exists>slots. get_employee_availability db some_id d = Inr slots"
    by (rule availability_total)
next
  show "active_staff db shid = filter (\<lambda>x. emp_shop_id x = shid \<and> is_active x) (employees db)"
    by (simp add: active_staff_def)
qed

text \<open>
  On Sunday 2023-12-31: the employee who works on Tuesdays is free on the third date; the
  shop's first free active employee is employee 2, on Monday (the inactive employee, who
  would be free on the Sunday itself, is passed over); the employee without working days,
  and the shop he is alone in, have no slot in the horizon.
\<close>

theorem next_available_slot_search_witness:
  "get_next_available_slot three_barbers 738885 (Some 1) None =
     Inr (Some \<lparr>ns_employee_id = 1, ns_employee_name = None, ns_date = 738887, ns_time = 540\<rparr>)
   \<and> get_next_available_slot three_barbers 738885 None (Some 1) =
     Inr (Some \<lparr>ns_employee_id = 2, ns_employee_name = Some ''Sarah Williams'',
                ns_date = 738886, ns_time = 600\<rparr>)
   \<and> get_next_available_slot three_barbers 738885 (Some 3) None = Inr None
   \<and> get_next_available_slot three_barbers 738885 None (Some 2) = Inr None"
proof -
  let ?e1 = "\<lparr>emp_id = 1, emp_shop_id = 1, emp_name = ''Mike Johnson'', is_active = True,
          working_days = ''Tue'', emp_start_time = 540, emp_end_time = 1080\<rparr>"
  let ?e2 = "\<lparr>emp_id = 2, emp_shop_id = 1, emp_name = ''Sarah Williams'', is_active = True,
          working_days = ''Mon'', emp_start_time = 600, emp_end_time = 1140\<rparr>"
  let ?e3 = "\<lparr>emp_id = 3, emp_shop_id = 2, emp_name = ''Tom Hill'', is_active = True,
          working_days = [], emp_start_time = 540, emp_end_time = 1080\<rparr>"
  let ?s1 = "\<lparr>slot_start_time = 540, slot_end_time = 570, available = True\<rparr>"
  let ?ss1 = "map spec_slot (spec_candidates (combine 738887 570) (combine 738887 1080))"
  let ?s2 = "\<lparr>slot_start_time = 600, slot_end_time = 630, available = True\<rparr>"
  let ?ss2 = "map spec_slot (spec_candidates (combine 738886 630) (combine 738886 1140))"
  have a10: "get_employee_availability three_barbers 1 (738885 + int 0) = Inr []"
    and a11: "get_employee_availability three_barbers 1 (738885 + int 1) = Inr []"
    and a12: "get_employee_availability three_barbers 1 (738885 + int 2) = Inr (?s1 # ?ss1)"
    and a20: "get_employee_availability three_barbers 2 (738885 + int 0) = Inr []"
    and a21: "get_employee_availability three_barbers 2 (738885 + int 1) = Inr (?s2 # ?ss2)"
    by code_simp+
  have st1: "active_staff three_barbers 1 = [?e1] @ ?e2 # []"
    and st2: "active_staff three_barbers 2 = [?e3]"
    by code_simp+
  have a3: "get_employee_availability three_barbers 3 d = Inr []" for d
    by (simp add: get_employee_availability_def get_employee_def three_barbers_def
        strftime_a_nonempty)
  note T1 = next_available_slot_search [where db = three_barbers and today = 738885
      and eid = 1 and any_shop = None and eo = None and shid = 1]
  note T3 = next_available_slot_search [where db = three_barbers and today = 738885
      and eid = 3 and any_shop = None and eo = None and shid = 2]
  have r1: "get_next_available_slot three_barbers 738885 (Some 1) None =
     Inr (Some \<lparr>ns_employee_id = 1, ns_employee_name = None, ns_date = 738887, ns_time = 540\<rparr>)"
  proof -
    have "\<forall>j<2. get_employee_availability three_barbers 1 (738885 + int j) = Inr []"
      using a10 a11 below_two by blast
    then have "2 < (30::nat) \<and>
        (\<forall>j<2. get_employee_availability three_barbers 1 (738885 + int j) = Inr []) \<and>
        get_employee_availability three_barbers 1 (738885 + int 2) = Inr (?s1 # ?ss1)"
      using a12 by simp
    then have "get_next_available_slot three_barbers 738885 (Some 1) None =
        Inr (Some \<lparr>ns_employee_id = 1, ns_employee_name = None,
                   ns_date = 738885 + int 2, ns_time = slot_start_time ?s1\<rparr>)"
      using T1 [THEN conjunct1, THEN mp, THEN conjunct1, rule_format, of 2 ?s1 ?ss1] by simp
    then show ?thesis
      by simp
  qed
  have r2: "get_next_available_slot three_barbers 738885 None (Some 1) =
     Inr (Some \<lparr>ns_employee_id = 2, ns_employee_name = Some ''Sarah Williams'',
                ns_date = 738886, ns_time = 600\<rparr>)"
  proof -
    have "\<forall>j<1. \<forall>x\<in>set (active_staff three_barbers 1).
            get_employee_availability three_barbers (emp_id x) (738885 + int j) = Inr []"
      using a10 a20 by (simp add: st1)
    moreover have "\<forall>x\<in>set [?e1]. get_employee_availability three_barbers (emp_id x) (738885 + int 1) = Inr []"
      using a11 by simp
    moreover have "get_employee_availability three_barbers (emp_id ?e2) (738885 + int 1) = Inr (?s2 # ?ss2)"
      using a21 by simp
    ultimately have "1 < (30::nat)
           \<and> (\<forall>j<1. \<forall>x\<in>set (active_staff three_barbers 1).
                  get_employee_availability three_barbers (emp_id x) (738885 + int j) = Inr [])
           \<and> active_staff three_barbers 1 = [?e1] @ ?e2 # []
           \<and> (\<forall>x\<in>set [?e1]. get_employee_availability three_barbers (emp_id x) (738885 + int 1) = Inr [])
           \<and> get_employee_availability three_barbers (emp_id ?e2) (738885 + int 1) = Inr (?s2 # ?ss2)"
      using st1 by simp
    then have "get_next_available_slot three_barbers 738885 None (Some 1) =
        Inr (Some \<lparr>ns_employee_id = emp_id ?e2, ns_employee_name = Some (emp_name ?e2),
                   ns_date = 738885 + int 1, ns_time = slot_start_time ?s2\<rparr>)"
      using T1 [THEN conjunct2, THEN conjunct1, THEN mp, THEN conjunct1, rule_format,
          of 1 "[?e1]" ?e2 "[]" ?s2 ?ss2]
      by simp
    then show ?thesis
      by simp
  qed
  have r3: "get_next_available_slot three_barbers 738885 (Some 3) None = Inr None"
    using T3 [THEN conjunct1, THEN mp, THEN conjunct2, THEN mp] a3 by simp
  have r4: "get_next_available_slot three_barbers 738885 None (Some 2) = Inr None"
    using T3 [THEN conjunct2, THEN conjunct1, THEN mp, THEN conjunct2, THEN mp] a3
    by (simp add: st2)
  from r1 r2 r3 r4 show ?thesis
    by blast
qed

section \<open>Unknown employees\<close>

text \<open>
  Claim C8, as the code has it. \<open>book_appointment\<close> raises \<^verbatim>\<open>ValueError("Employee not
  found")\<close> for an employee identifier that does not resolve, whatever the other arguments
  are. \<open>get_employee_availability\<close> has a guard that returns the empty list instead, and
  \<open>get_next_available_slot\<close> therefore returns \<^verbatim>\<open>None\<close>.
\<close>

theorem unknown_staff:
  assumes "get_employee db eid = None"
  shows "fst (book_appointment db today eid phone name ad st sid nts) = Inl StaffNotFound
         \<and> get_employee_availability db eid d = Inr []
         \<and> (eid \<noteq> 0 \<longrightarrow> get_next_available_slot db today (Some eid) shid = Inr None)"
proof -
  have avail: "get_employee_availability db eid d' = Inr []" for d'
    using assms by (simp add: get_employee_availability_def)
  have "fst (book_appointment db today eid phone name ad st sid nts) = Inl StaffNotFound"
    using assms by (simp add: book_appointment_paths Let_def)
  moreover have "get_next_available_slot db today (Some eid) shid = Inr None" if "eid \<noteq> 0"
    unfolding get_next_available_slot_def
    using days_loop_staff_skip [of eid "[0..<30]" db today shid "[]"] that avail by simp
  ultimately show ?thesis
    using avail by simp
qed

text \<open>The claim as stated fails for availability: the call returns, with no slots.\<close>

theorem unknown_staff_counterexample:
  "get_employee empty_shop 7 = None
   \<and> get_employee_availability empty_shop 7 738886 = Inr []
   \<and> get_employee_availability empty_shop 7 738886 \<noteq> Inl StaffNotFound"
  by (intro conjI) code_simp+

theorem unknown_staff_witness:
  "fst (book_appointment empty_shop 738885 7 ''555-2001'' ''Ann Lee'' 738886 ''10:00'' None [])
     = Inl StaffNotFound
   \<and> get_employee_availability empty_shop 7 738886 = Inr []
   \<and> get_next_available_slot empty_shop 738885 (Some 7) None = Inr None"
proof -
  have h: "get_employee empty_shop 7 = None"
    by code_simp
  show ?thesis
    using unknown_staff [OF h, of 738885 "''555-2001''" "''Ann Lee''" 738886 "''10:00''" None "[]"
        738886 None]
    by simp
qed

section \<open>The end time of a booking\<close>

lemma digit_le: "digit c = Some d \<Longrightarrow> d \<le> 9"
  by (auto simp: digit_def Let_def split: if_splits)

lemma digit_le_sym: "Some d = digit c \<Longrightarrow> d \<le> 9"
  using digit_le [of c d] by simp

lemma alts_H_bound: "(h, r) \<in> set (alts_H s) \<Longrightarrow> h \<le> 23"
  by (auto simp: alts_H_def split: list.splits option.splits if_splits
      dest!: digit_le digit_le_sym)

lemma alts_M_bound: "(m, r) \<in> set (alts_M s) \<Longrightarrow> m \<le> 59"
  by (auto simp: alts_M_def split: list.splits option.splits if_splits
      dest!: digit_le digit_le_sym)

lemma alts_M_first: "alts_M s = (m, rest) # xs \<Longrightarrow> m \<le> 59"
  using alts_M_bound [of m rest s] by simp

lemma match_HM_bound:
  "match_HM alts = Some (h, m, rest) \<Longrightarrow> \<forall>(h', r) \<in> set alts. h' \<le> 23 \<Longrightarrow> h \<le> 23 \<and> m \<le> 59"
proof (induction alts rule: match_HM.induct)
  case 1
  then show ?case by simp
next
  case (2 h' r alts)
  then show ?case
    by (auto split: list.splits if_splits dest: alts_M_first)
qed

lemma strptime_HM_bound: "strptime_HM st = Some s \<Longrightarrow> s < 1440"
proof -
  assume a: "strptime_HM st = Some s"
  then obtain h m where hm: "match_HM (alts_H st) = Some (h, m, [])" and s: "s = h * 60 + m"
    by (auto simp: strptime_HM_def split: option.splits if_splits)
  have "\<forall>(h', r) \<in> set (alts_H st). h' \<le> 23"
    using alts_H_bound by auto
  with hm have "h \<le> 23 \<and> m \<le> 59"
    by (rule match_HM_bound)
  then show ?thesis
    using s by simp
qed

lemma wrap_once: "1440 \<le> x \<Longrightarrow> x < 2880 \<Longrightarrow> (x::int) mod 1440 = x - 1440"
proof -
  assume a: "1440 \<le> x" "x < 2880"
  have "x mod 1440 = (x - 1440) mod 1440"
    by (simp add: mod_diff_eq [symmetric])
  also have "\<dots> = x - 1440"
    using a by (intro mod_pos_pos_trivial) simp_all
  finally show ?thesis .
qed

lemma book_appointment_overflow:
  assumes "get_employee db eid = Some e" and "strptime_HM st = Some s"
    and "\<not> representable today s (booking_duration db sid)"
  shows "fst (book_appointment db today eid phone name ad st sid nts) = Inl OverflowError"
  using assms by (simp add: book_appointment_paths Let_def)

lemma overflow_example:
  "fst (book_appointment long_service_shop 738885 1 ''555-2001'' ''Ann Lee'' 738886 ''10:00''
          (Some 2) [])
     = Inl OverflowError"
  by code_simp

lemma crossing_representable:
  assumes "1 \<le> today" and "today < 3652059" and "s < 1440"
    and "duration < 1440" and "1440 \<le> int s + duration"
  shows "representable today s duration"
proof -
  have "0 < duration"
    using assms(3,5) by simp
  then have "duration div 1440 = 0"
    using assms(4) by simp
  moreover have "1440 \<le> today * 1440 + int s + duration"
    using assms(1,5) by simp
  moreover have "today * 1440 + int s + duration < 5258966400"
    using assms(2,3,4) by simp
  ultimately show ?thesis
    by (simp add: representable_def combine_def)
qed

text \<open>
  Claim C10, as the code has it. The stored end time of every accepted booking is start
  plus duration modulo 24 hours. When the duration is below 24 hours and start plus
  duration reaches or passes midnight, the stored end time is a time of day before the
  start time, and no validation rejects such a request: on any day but the last of
  Python's calendar it is accepted whenever the employee exists, the start time parses
  and the conflict query finds no row.
\<close>

theorem end_time_modulo_day:
  "(book_appointment db today eid phone name ad st sid nts = (Inr a, db') \<longrightarrow>
      strptime_HM st = Some (start_time a)
      \<and> int (end_time a) = (int (start_time a) + booking_duration db sid) mod 1440
      \<and> (booking_duration db sid < 1440 \<and>
          1440 \<le> int (start_time a) + booking_duration db sid \<longrightarrow>
            end_time a < start_time a
            \<and> int (end_time a) = int (start_time a) + booking_duration db sid - 1440))
   \<and> (get_employee db eid = Some e \<and> strptime_HM st = Some s
       \<and> 1 \<le> today \<and> today < 3652059
       \<and> booking_duration db sid < 1440 \<and> 1440 \<le> int s + booking_duration db sid
       \<and> find (conflicts eid ad s (nat ((int s + booking_duration db sid) mod 1440)))
             (appointments db) = None \<longrightarrow>
         (\<exists>a' db''. book_appointment db today eid phone name ad st sid nts = (Inr a', db'')
            \<and> start_time a' = s \<and> end_time a' < s))"
proof (intro conjI impI)
  assume acc: "book_appointment db today eid phone name ad st sid nts = (Inr a, db')"
  let ?x = "int (start_time a) + booking_duration db sid"
  from acc show p: "strptime_HM st = Some (start_time a)"
    by (auto simp: book_appointment_paths Let_def booked_def split: option.splits if_splits)
  from acc show e: "int (end_time a) = ?x mod 1440"
    by (auto simp: book_appointment_paths Let_def booked_def split: option.splits if_splits)
  assume cross: "booking_duration db sid < 1440 \<and> 1440 \<le> ?x"
  have "int (start_time a) < 1440"
    using strptime_HM_bound [OF p] by simp
  then have "?x mod 1440 = ?x - 1440"
    using cross by (intro wrap_once) simp_all
  then show w: "int (end_time a) = ?x - 1440"
    using e by simp
  show "end_time a < start_time a"
    using w cross by simp
next
  assume h: "get_employee db eid = Some e \<and> strptime_HM st = Some s
       \<and> 1 \<le> today \<and> today < 3652059
       \<and> booking_duration db sid < 1440 \<and> 1440 \<le> int s + booking_duration db sid
       \<and> find (conflicts eid ad s (nat ((int s + booking_duration db sid) mod 1440)))
             (appointments db) = None"
  let ?x = "int s + booking_duration db sid"
  let ?a = "booked db e (fst (register_customer db name phone)) eid ad s sid nts"
  have bound: "s < 1440"
    using h strptime_HM_bound by blast
  have fit: "representable today s (booking_duration db sid)"
    using h bound by (intro crossing_representable) simp_all
  have b: "book_appointment db today eid phone name ad st sid nts =
      (Inr ?a, (snd (register_customer db name phone))\<lparr>appointments := appointments db @ [?a]\<rparr>)"
    using h fit by (simp add: book_appointment_paths Let_def)
  have st: "start_time ?a = s"
    by (simp add: booked_def)
  have "?x mod 1440 = ?x - 1440"
    using h bound by (intro wrap_once) simp_all
  then have "int (end_time ?a) = ?x - 1440"
    by (simp add: booked_def)
  then have en: "end_time ?a < s"
    using h by simp
  show "\<exists>a' db''. book_appointment db today eid phone name ad st sid nts = (Inr a', db'')
            \<and> start_time a' = s \<and> end_time a' < s"
    by (intro exI conjI) (rule b, rule st, rule en)
qed

text \<open>
  The claim as stated fails for a duration of 24 hours or more: 10:00 plus 25 hours is
  accepted and stored as 11:00, which is not before 10:00.
\<close>

theorem end_time_modulo_day_counterexample:
  "fst (book_appointment long_service_shop 738885 1 ''555-2001'' ''Ann Lee'' 738886 ''10:00''
          (Some 1) [])
     = Inr ((example_appointment 1 738886 600 660)\<lparr>service_id := Some 1\<rparr>)
   \<and> booking_duration long_service_shop (Some 1) = 1500
   \<and> 1440 \<le> (600::int) + 1500
   \<and> \<not> end_time ((example_appointment 1 738886 600 660)\<lparr>service_id := Some 1\<rparr>)
         < start_time ((example_appointment 1 738886 600 660)\<lparr>service_id := Some 1\<rparr>)"
  by (intro conjI) code_simp+

text \<open>A default booking at 23:45 is accepted and ends at 00:15.\<close>

theorem end_time_modulo_day_witness:
  "fst (book_appointment empty_shop 738885 1 ''555-2001'' ''Ann Lee'' 738886 ''23:45'' None [])
     = Inr (example_appointment 1 738886 1425 15)
   \<and> booking_duration empty_shop None = 30
   \<and> end_time (example_appointment 1 738886 1425 15) < start_time (example_appointment 1 738886 1425 15)
   \<and> int (end_time (example_appointment 1 738886 1425 15)) = 1425 + 30 - 1440"
proof -
  let ?B = "book_appointment empty_shop 738885 1 ''555-2001'' ''Ann Lee'' 738886 ''23:45'' None []"
  let ?a = "example_appointment 1 738886 1425 15"
  let ?e = "example_employee ''Mon,Tue,Wed,Thu,Fri,Sat'' 540 720"
  note T = end_time_modulo_day [where db = empty_shop and today = 738885 and eid = 1
      and phone = "''555-2001''" and name = "''Ann Lee''" and ad = 738886 and st = "''23:45''"
      and sid = None and nts = "[]" and e = ?e and s = 1425 and a = ?a and db' = "snd ?B"]
  have h1: "get_employee empty_shop 1 = Some ?e"
    and h2: "strptime_HM ''23:45'' = Some 1425"
    and h3: "find (conflicts 1 738886 1425 (nat ((int 1425 + booking_duration empty_shop None) mod 1440)))
           (appointments empty_shop) = None"
    and d: "booking_duration empty_shop None = 30"
    by code_simp+
  have hyp: "get_employee empty_shop 1 = Some ?e \<and> strptime_HM ''23:45'' = Some 1425
       \<and> 1 \<le> (738885::int) \<and> (738885::int) < 3652059
       \<and> booking_duration empty_shop None < 1440 \<and> 1440 \<le> int 1425 + booking_duration empty_shop None
       \<and> find (conflicts 1 738886 1425 (nat ((int 1425 + booking_duration empty_shop None) mod 1440)))
             (appointments empty_shop) = None"
    using h1 h2 h3 by (simp add: d)
  from T [THEN conjunct2, THEN mp, OF hyp]
  obtain a' db'' where B: "?B = (Inr a', db'')" and st: "start_time a' = 1425"
    and en: "end_time a' < 1425"
    by blast
  have r: "fst ?B = Inr ?a"
    by code_simp
  have a: "a' = ?a"
    using B r by simp
  have acc: "?B = (Inr ?a, snd ?B)"
    by (simp add: prod_eq_iff r)
  have sa: "start_time ?a = 1425"
    by (simp add: example_appointment_def)
  have cross: "booking_duration empty_shop None < 1440 \<and>
          1440 \<le> int (start_time ?a) + booking_duration empty_shop None"
    by (simp add: d sa)
  from T [THEN conjunct1, THEN mp, OF acc]
  have "int (end_time ?a) = int (start_time ?a) + booking_duration empty_shop None - 1440"
    using cross by blast
  then have e2: "int (end_time ?a) = 1425 + 30 - 1440"
    by (simp add: d sa)
  have e1: "end_time ?a < start_time ?a"
    using en a sa by simp
  from r d e1 e2 show ?thesis
    by blast
qed

section \<open>The conflict query\<close>

text \<open>
  For a candidate interval that is not empty, the filter of the conflict query is the
  half-open overlap test without the case in which the stored appointment lies strictly
  inside the candidate.
\<close>

lemma conflicts_iff:
  assumes "s < e"
  shows "conflicts eid d s e a \<longleftrightarrow>
           employee_id a = eid \<and> appointment_date a = d \<and> status a \<noteq> ''cancelled'' \<and>
           spec_overlap (int s) (int e) (int (start_time a)) (int (end_time a)) \<and>
           \<not> (s < start_time a \<and> end_time a < e)"
  using assms by (auto simp: conflicts_def spec_overlap_def)

text \<open>
  Claim C1 (no double-booking) does not hold of the code. From a shop without
  appointments, a default booking at 10:00 is accepted (10:00-10:30), and then a booking at
  09:45 for the 60-minute service is accepted as well (09:45-10:45): the table holds two
  overlapping appointments of the same employee and date.
\<close>

theorem double_booking_accepted:
  "\<not> spec_double_booked (appointments empty_shop)
   \<and> fst (book_appointment empty_shop 738885 1 ''555-2001'' ''Ann Lee'' 738886 ''10:00'' None [])
     = Inr (example_appointment 1 738886 600 630)
   \<and> fst (book_appointment
            (snd (book_appointment empty_shop 738885 1 ''555-2001'' ''Ann Lee'' 738886 ''10:00''
                    None []))
            738885 1 ''555-2002'' ''Bob Ray'' 738886 ''09:45'' (Some 3) [])
     = Inr \<lparr>appt_id = 2, shop_id = 1, employee_id = 1, customer_id = 2, service_id = Some 3,
            appointment_date = 738886, start_time = 585, end_time = 645, appt_notes = [],
            status = ''scheduled''\<rparr>
   \<and> spec_double_booked (appointments (snd (book_appointment
            (snd (book_appointment empty_shop 738885 1 ''555-2001'' ''Ann Lee'' 738886 ''10:00''
                    None []))
            738885 1 ''555-2002'' ''Bob Ray'' 738886 ''09:45'' (Some 3) [])))"
  by (intro conjI) code_simp+

text \<open>
  Claim C2 (a booking fails exactly when a stored appointment overlaps the candidate)
  does not hold of the code. With the appointment 10:00-10:30 stored, the request for
  09:45 with the 60-minute service overlaps it and is accepted; the specification's own
  example, the same request with a 30-minute service, is rejected.
\<close>

theorem containing_request_accepted:
  "day_appointments booked_shop 1 738886 = [example_appointment 1 738886 600 630]
   \<and> booking_duration booked_shop (Some 3) = 60
   \<and> spec_overlap (combine 738886 585) (combine 738886 645)
        (combine 738886 600) (combine 738886 630)
   \<and> fst (book_appointment booked_shop 738885 1 ''555-2002'' ''Bob Ray'' 738886 ''09:45''
            (Some 3) [])
     = Inr \<lparr>appt_id = 2, shop_id = 1, employee_id = 1, customer_id = 2, service_id = Some 3,
            appointment_date = 738886, start_time = 585, end_time = 645, appt_notes = [],
            status = ''scheduled''\<rparr>
   \<and> fst (book_appointment booked_shop 738885 1 ''555-2002'' ''Bob Ray'' 738886 ''09:45''
            (Some 1) [])
     = Inl SlotUnavailable"
  by (intro conjI) code_simp+

end
